theory Spec2Isabelle
  imports
    Main
    "HOL-Library.Char_ord"
    "HOL-Library.List_Lexorder"
    "HOL-Library.Sublist"
begin

section \<open>The POI map viewer (streamlit_app.py)\<close>

text \<open>
  The program is one script, run from top to bottom once per interaction: connect,
  fetch the table, clean the two coordinate columns, derive the cascading filter
  options, filter, render, and render three charts over the whole cleaned table.
  The model follows the script line by line. The calls into the database driver and
  into the widget framework are inputs of the model (\<open>world\<close>, below); the data
  transformations are HOL functions over lists of rows.
\<close>

subsection \<open>Data model\<close>

text \<open>
  A value of a coordinate column as the query returns it: SQL NULL (or a floating
  point NaN, which the data library treats as missing just the same), a number, or
  text. The type \<open>'f\<close> stands for the numbers (the non-NaN floats); no operation of the
  model computes with them.
\<close>

datatype 'f cell = Null | Num 'f | Text string

text \<open>
  One row of \<open>POI_ADDRESS_US\<close>, with the six columns the script reads. A text column
  is \<open>None\<close> where the table has NULL. Strings are byte strings (UTF-8), on which the
  lexicographic order agrees with the code-point order of the source's strings.
  Columns the script never reads are not modelled.
\<close>

record 'f row =
  POI_NAME :: "string option"
  CATEGORY_MAIN :: "string option"
  CITY :: "string option"
  STATE :: "string option"
  LATITUDE :: "'f cell"
  LONGITUDE :: "'f cell"

text \<open>
  A data frame is the list of its rows in order, each with its index label. Filtering
  and dropping rows keep the labels of the rows that stay, as the library does.
\<close>

type_synonym 'f dataframe = "(nat \<times> 'f row) list"

definition column :: "('f row \<Rightarrow> 'a) \<Rightarrow> 'f dataframe \<Rightarrow> 'a list" where
  "column f df = map (f \<circ> snd) df"

subsection \<open>Cleaning (lines 37-39)\<close>

text \<open>
  \<open>pd.to_numeric(..., errors="coerce")\<close> on one value: a number stays, a missing
  value stays missing, text is parsed, and text that does not parse becomes missing
  instead of raising. The parser of the library is the parameter \<open>parse\<close>.
\<close>

fun to_numeric :: "(string \<Rightarrow> 'f option) \<Rightarrow> 'f cell \<Rightarrow> 'f cell" where
  "to_numeric parse Null = Null"
| "to_numeric parse (Num x) = Num x"
| "to_numeric parse (Text s) = (case parse s of None \<Rightarrow> Null | Some x \<Rightarrow> Num x)"

fun isna :: "'f cell \<Rightarrow> bool" where
  "isna Null = True"
| "isna (Num x) = False"
| "isna (Text s) = False"

definition coerce_row :: "(string \<Rightarrow> 'f option) \<Rightarrow> 'f row \<Rightarrow> 'f row" where
  "coerce_row parse r =
     r\<lparr>LATITUDE := to_numeric parse (LATITUDE r),
       LONGITUDE := to_numeric parse (LONGITUDE r)\<rparr>"

definition coerce_coords :: "(string \<Rightarrow> 'f option) \<Rightarrow> 'f dataframe \<Rightarrow> 'f dataframe" where
  "coerce_coords parse df = map (\<lambda>(i, r). (i, coerce_row parse r)) df"

definition dropna_coords :: "'f dataframe \<Rightarrow> 'f dataframe" where
  "dropna_coords df = filter (\<lambda>(i, r). \<not> isna (LATITUDE r) \<and> \<not> isna (LONGITUDE r)) df"

definition sanitize :: "(string \<Rightarrow> 'f option) \<Rightarrow> 'f dataframe \<Rightarrow> 'f dataframe" where
  "sanitize parse df = dropna_coords (coerce_coords parse df)"

subsection \<open>Option lists and filters (lines 43-59)\<close>

text \<open>
  \<open>Series.dropna()\<close> on a text column and \<open>unique()\<close>, which keeps the first occurrence
  of every value in order of appearance.
\<close>

definition dropna :: "'a option list \<Rightarrow> 'a list" where
  "dropna col = List.map_filter id col"

definition unique :: "'a list \<Rightarrow> 'a list" where
  "unique xs = rev (remdups (rev xs))"

definition category_options :: "'f dataframe \<Rightarrow> string list" where
  "category_options df = sort (unique (dropna (column CATEGORY_MAIN df)))"

definition filter_category :: "'f dataframe \<Rightarrow> string \<Rightarrow> 'f dataframe" where
  "filter_category df category = filter (\<lambda>(i, r). CATEGORY_MAIN r = Some category) df"

text \<open>The state options are computed from the frame already filtered by category.\<close>

definition state_options :: "'f dataframe \<Rightarrow> string list" where
  "state_options fdf = ''All'' # sort (unique (dropna (column STATE fdf)))"

definition filter_state :: "'f dataframe \<Rightarrow> string \<Rightarrow> 'f dataframe" where
  "filter_state fdf state =
     (if state \<noteq> ''All'' then filter (\<lambda>(i, r). STATE r = Some state) fdf else fdf)"

text \<open>The city options are computed from the frame filtered by category and state.\<close>

definition city_options :: "'f dataframe \<Rightarrow> string list" where
  "city_options fdf = ''All'' # sort (unique (dropna (column CITY fdf)))"

definition filter_city :: "'f dataframe \<Rightarrow> string \<Rightarrow> 'f dataframe" where
  "filter_city fdf city =
     (if city \<noteq> ''All'' then filter (\<lambda>(i, r). CITY r = Some city) fdf else fdf)"

text \<open>
  The three filters in the script's order: the value of \<open>filtered_df\<close> at line 61 for a
  selection \<open>(category, state, city)\<close>.
\<close>

definition filtered_df :: "'f dataframe \<Rightarrow> string \<Rightarrow> string \<Rightarrow> string \<Rightarrow> 'f dataframe" where
  "filtered_df df category state city =
     filter_city (filter_state (filter_category df category) state) city"

subsection \<open>Aggregates (lines 105 and 116)\<close>

text \<open>
  \<open>Series.value_counts()\<close> with its defaults: missing values are dropped, every
  distinct value gets the number of its occurrences, and the result is in descending
  order of count. Values with equal counts are kept here in order of first appearance;
  the source makes no promise about them and nothing below depends on it.
  After \<open>reset_index()\<close> the result is a two-column table, the list of its rows here.
\<close>

definition value_counts :: "string option list \<Rightarrow> (string \<times> nat) list" where
  "value_counts col =
     (let vals = dropna col
      in sort_key (\<lambda>(l, n). - int n) (map (\<lambda>l. (l, count_list vals l)) (unique vals)))"

definition category_counts :: "'f dataframe \<Rightarrow> (string \<times> nat) list" where
  "category_counts df = value_counts (column CATEGORY_MAIN df)"

definition state_counts :: "'f dataframe \<Rightarrow> (string \<times> nat) list" where
  "state_counts df = value_counts (column STATE df)"

subsection \<open>The script\<close>

text \<open>
  What one run shows, in order. Message texts are the source's without their leading
  pictographs. A chart or table event carries the data it is given; the view state of
  the map (the mean of the two coordinate columns) is taken from that data by the
  renderer and is not computed here. \<open>Dataframe\<close> carries the rows after the projection
  to the six columns, which are all the columns \<open>row\<close> has.
\<close>

datatype exn = Exn string

datatype 'f event =
    SetPageConfig
  | Title string
  | Markdown string
  | Error string
  | Warning string
  | SidebarHeader string
  | Selectbox string "string list"
  | Slider string int int int
  | Success nat
  | Subheader string
  | PydeckChart "'f dataframe"
  | Dataframe "'f dataframe"
  | DownloadButton "'f dataframe"
  | BarChart "(string \<times> nat) list"
  | PlotlyChart "(string \<times> nat) list"

text \<open>
  How a run ends: it reaches the last line, it is halted by \<open>st.stop()\<close>, or an
  exception that no handler of the script catches leaves it.
\<close>

datatype outcome = Completed | Stopped | Raised exn

text \<open>
  The surroundings of one run. \<open>get_connection\<close> and \<open>read_sql\<close> are the results of
  the two database calls, \<open>Inl\<close> when the call raises. \<open>selectbox label options\<close> is the
  value the select box returns and \<open>slider label min_value max_value value\<close> the value
  the slider returns, or the exception it raises; both are arbitrary here, so a
  statement about every \<open>world\<close> covers every behaviour of the widget framework.
  Every other library call of the script is taken to return.
\<close>

record 'f world =
  get_connection :: "exn + unit"
  read_sql :: "exn + 'f row list"
  parse_float :: "string \<Rightarrow> 'f option"
  selectbox :: "string \<Rightarrow> string list \<Rightarrow> string"
  slider :: "string \<Rightarrow> int \<Rightarrow> int \<Rightarrow> int \<Rightarrow> exn + int"

text \<open>\<open>DataFrame.head(n)\<close>: the first \<open>n\<close> rows, or all but the last \<open>-n\<close> for a negative \<open>n\<close>.\<close>

definition head :: "int \<Rightarrow> 'a list \<Rightarrow> 'a list" where
  "head n xs = (if 0 \<le> n then take (nat n) xs else take (length xs - nat (- n)) xs)"

text \<open>Lines 68-89: the map, or the warning in its place.\<close>

definition map_view :: "'f dataframe \<Rightarrow> 'f event" where
  "map_view fdf =
     (if fdf \<noteq> [] then PydeckChart fdf
      else Warning ''No data available for the selected filters.'')"

text \<open>Lines 104-118: the three charts over the whole cleaned frame \<open>df\<close>.\<close>

definition aggregates :: "'f dataframe \<Rightarrow> 'f event list" where
  "aggregates df =
     [Subheader ''POI Category Distribution (All Data)'',
      BarChart (category_counts df),
      Subheader ''Category Distribution Pie Chart'',
      PlotlyChart (category_counts df),
      Subheader ''POI Distribution by State (All Data)'',
      BarChart (state_counts df)]"

text \<open>Lines 63-118: everything after the sidebar.\<close>

definition render :: "'f dataframe \<Rightarrow> 'f dataframe \<Rightarrow> int \<Rightarrow> 'f event list" where
  "render df fdf row_count =
     [Success (length fdf),
      Subheader ''Map View'',
      map_view fdf,
      Subheader ''Selected POI Records'',
      Dataframe (head row_count fdf),
      DownloadButton fdf] @ aggregates df"

text \<open>Lines 42-118, on the cleaned frame \<open>df\<close>.\<close>

definition sidebar :: "'f world \<Rightarrow> 'f dataframe \<Rightarrow> 'f event list \<times> outcome" where
  "sidebar w df =
     (let copts = category_options df in
      if copts = [] then
        ([SidebarHeader ''Filter Options'', Warning ''No categories found in the data.''],
         Stopped)
      else
        let category = selectbox w ''Select Category'' copts;
            fdf1 = filter_category df category;
            sopts = state_options fdf1;
            state = selectbox w ''Select State'' sopts;
            fdf2 = filter_state fdf1 state;
            ciopts = city_options fdf2;
            city = selectbox w ''Select City'' ciopts;
            fdf3 = filter_city fdf2 city;
            n = int (length fdf3);
            widgets = [SidebarHeader ''Filter Options'',
                       Selectbox ''Select Category'' copts,
                       Selectbox ''Select State'' sopts,
                       Selectbox ''Select City'' ciopts]
        in case slider w ''Number of rows to display'' 1 n (min 10 n) of
             Inl e \<Rightarrow> (widgets, Raised e)
           | Inr row_count \<Rightarrow>
               (widgets @ [Slider ''Number of rows to display'' 1 n (min 10 n)]
                  @ render df fdf3 row_count,
                Completed))"

text \<open>
  Lines 8-39 and the rest: the handler at lines 25-29 encloses \<open>get_connection()\<close>
  only; \<open>pd.read_sql\<close> at line 33 is outside it. The frame read at line 33 carries the
  index labels \<open>0, 1, 2, ...\<close>.
\<close>

definition page_header :: "'f event list" where
  "page_header =
     [SetPageConfig,
      Title ''US POI Map Viewer'',
      Markdown ''View Points of Interest from Snowflake with Map, Filters, and Visualizations'']"

definition script :: "'f world \<Rightarrow> 'f event list \<times> outcome" where
  "script w =
     (case get_connection w of
        Inl e \<Rightarrow>
          (page_header
             @ [Error ''Failed to connect to Snowflake. Please check your credentials.''],
           Stopped)
      | Inr conn \<Rightarrow>
          (case read_sql w of
             Inl e \<Rightarrow> (page_header, Raised e)
           | Inr rows \<Rightarrow>
               (let df = sanitize (parse_float w) (List.enumerate 0 rows);
                    (evs, out) = sidebar w df
                in (page_header @ evs, out))))"

text \<open>The chart events of a run, in order: what the run shows of the aggregates.\<close>

fun is_chart :: "'f event \<Rightarrow> bool" where
  "is_chart (BarChart t) = True"
| "is_chart (PlotlyChart t) = True"
| "is_chart e = False"

definition charts :: "'f event list \<Rightarrow> 'f event list" where
  "charts evs = filter is_chart evs"

subsection \<open>Sample data\<close>

text \<open>
  Four rows: two of category A, the second with a latitude that does not parse, one of
  category B, and one without a category. The sample parser reads only the text \<open>2\<close>.
\<close>

definition poi1 :: "int row" where
  "poi1 = \<lparr>POI_NAME = Some ''Cafe'', CATEGORY_MAIN = Some ''A'', CITY = Some ''Austin'',
           STATE = Some ''TX'', LATITUDE = Num 1, LONGITUDE = Num 1\<rparr>"

definition poi2 :: "int row" where
  "poi2 = \<lparr>POI_NAME = Some ''Diner'', CATEGORY_MAIN = Some ''A'', CITY = Some ''Fresno'',
           STATE = Some ''CA'', LATITUDE = Text ''bad'', LONGITUDE = Text ''2''\<rparr>"

definition poi3 :: "int row" where
  "poi3 = \<lparr>POI_NAME = Some ''Depot'', CATEGORY_MAIN = Some ''B'', CITY = None,
           STATE = None, LATITUDE = Num 3, LONGITUDE = Num 3\<rparr>"

definition poi4 :: "int row" where
  "poi4 = \<lparr>POI_NAME = Some ''Kiosk'', CATEGORY_MAIN = None, CITY = Some ''Austin'',
           STATE = Some ''TX'', LATITUDE = Num 4, LONGITUDE = Num 4\<rparr>"

definition sample_parse :: "string \<Rightarrow> int option" where
  "sample_parse s = (if s = ''2'' then Some 2 else None)"

definition sample_rows :: "int row list" where
  "sample_rows = [poi1, poi2, poi3, poi4]"

definition sample_raw :: "int dataframe" where
  "sample_raw = List.enumerate 0 sample_rows"

definition sample_df :: "int dataframe" where
  "sample_df = [(0, poi1), (2, poi3), (3, poi4)]"

text \<open>A select box that returns its first option, as the framework does by default.\<close>

definition first_option :: "string \<Rightarrow> string list \<Rightarrow> string" where
  "first_option label options = (case options of [] \<Rightarrow> [] | x # xs \<Rightarrow> x)"

definition sample_world :: "int world" where
  "sample_world =
     \<lparr>get_connection = Inr (), read_sql = Inr sample_rows,
      parse_float = sample_parse, selectbox = first_option,
      slider = (\<lambda>label lo hi v. Inr v)\<rparr>"

definition connect_fail_world :: "int world" where
  "connect_fail_world = sample_world\<lparr>get_connection := Inl (Exn ''DatabaseError'')\<rparr>"

definition query_fail_world :: "int world" where
  "query_fail_world = sample_world\<lparr>read_sql := Inl (Exn ''ProgrammingError'')\<rparr>"

definition empty_table_world :: "int world" where
  "empty_table_world = sample_world\<lparr>read_sql := Inr []\<rparr>"

definition uncategorised_world :: "int world" where
  "uncategorised_world = sample_world\<lparr>read_sql := Inr [poi4, poi4]\<rparr>"

text \<open>
  A table in which category A has two rows and category B one, a slider that rejects
  equal bounds, as the framework's slider does, and otherwise returns its initial
  value, and two runs over that table: one with the first option of every select box
  (category A), one with category B selected.
\<close>

definition poi5 :: "int row" where
  "poi5 = \<lparr>POI_NAME = Some ''Grill'', CATEGORY_MAIN = Some ''A'', CITY = Some ''Dallas'',
           STATE = Some ''TX'', LATITUDE = Num 5, LONGITUDE = Num 5\<rparr>"

definition chart_rows :: "int row list" where
  "chart_rows = [poi1, poi5, poi3]"

definition equal_bounds_slider :: "string \<Rightarrow> int \<Rightarrow> int \<Rightarrow> int \<Rightarrow> exn + int" where
  "equal_bounds_slider label lo hi v =
     (if lo = hi then Inl (Exn ''StreamlitAPIException'') else Inr v)"

definition two_row_world :: "int world" where
  "two_row_world =
     \<lparr>get_connection = Inr (), read_sql = Inr chart_rows,
      parse_float = sample_parse, selectbox = first_option,
      slider = equal_bounds_slider\<rparr>"

definition one_row_world :: "int world" where
  "one_row_world =
     two_row_world\<lparr>selectbox :=
       (\<lambda>label options. if label = ''Select Category'' then ''B'' else first_option label options)\<rparr>"

section \<open>Properties of the operations\<close>

lemma set_unique: "set (unique xs) = set xs"
  by (simp add: unique_def)

lemma distinct_unique: "distinct (unique xs)"
  by (simp add: unique_def)

lemma set_dropna: "set (dropna col) = {x. Some x \<in> set col}"
  by (induction col) (auto simp: dropna_def List.map_filter_def)

lemma length_dropna: "length (dropna col) = length (filter (\<lambda>v. v \<noteq> None) col)"
  by (induction col) (auto simp: dropna_def List.map_filter_def)

lemma set_options_column:
  "set (sort (unique (dropna (column f df)))) = {x. \<exists>(i, r) \<in> set df. f r = Some x}"
  by (force simp: set_unique set_dropna column_def)

lemma to_numeric_cases: "to_numeric parse c = Null \<or> (\<exists>x. to_numeric parse c = Num x)"
  by (cases c) (auto split: option.splits)

lemma sanitize_eq:
  "sanitize parse df =
     coerce_coords parse
       (filter (\<lambda>(i, r). \<not> isna (to_numeric parse (LATITUDE r))
                        \<and> \<not> isna (to_numeric parse (LONGITUDE r))) df)"
  by (induction df) (auto simp: sanitize_def dropna_coords_def coerce_coords_def coerce_row_def)

lemma subseq_index_coerce: "map fst (coerce_coords parse df) = map fst df"
  by (induction df) (auto simp: coerce_coords_def)

lemma sanitize_index_subseq: "subseq (map fst (sanitize parse df)) (map fst df)"
  by (simp add: sanitize_eq subseq_index_coerce subseq_map)

lemma sanitize_numbers:
  assumes "(i, r') \<in> set (sanitize parse df)"
  shows "\<exists>x y. LATITUDE r' = Num x \<and> LONGITUDE r' = Num y"
proof -
  from assms have "\<not> isna (LATITUDE r')" "\<not> isna (LONGITUDE r')"
    and "(i, r') \<in> set (coerce_coords parse df)"
    by (auto simp: sanitize_def dropna_coords_def)
  then obtain r where r: "r' = coerce_row parse r"
    by (auto simp: coerce_coords_def)
  from \<open>\<not> isna (LATITUDE r')\<close> \<open>\<not> isna (LONGITUDE r')\<close>
  show ?thesis
    using to_numeric_cases [of parse "LATITUDE r"] to_numeric_cases [of parse "LONGITUDE r"]
    by (auto simp: r coerce_row_def)
qed

lemma sanitize_origin:
  assumes "(i, r') \<in> set (sanitize parse df)"
  shows "\<exists>r. (i, r) \<in> set df \<and> r' = coerce_row parse r"
  using assms by (auto simp: sanitize_def dropna_coords_def coerce_coords_def)

lemma filtered_df_eq:
  "filtered_df df c s ci =
     filter (\<lambda>(i, r). CATEGORY_MAIN r = Some c
                    \<and> (s \<noteq> ''All'' \<longrightarrow> STATE r = Some s)
                    \<and> (ci \<noteq> ''All'' \<longrightarrow> CITY r = Some ci)) df"
  by (auto simp: filtered_df_def filter_city_def filter_state_def filter_category_def
           intro!: filter_cong)

lemma count_list_filter_le: "count_list (filter P xs) x \<le> count_list xs x"
  by (induction xs) auto

lemma count_list_dropna: "count_list (dropna col) l = length (filter (\<lambda>v. v = Some l) col)"
  by (induction col) (auto simp: dropna_def List.map_filter_def)

lemma sum_list_insort_key:
  fixes f :: "'a \<Rightarrow> nat"
  shows "sum_list (map f (insort_key k x xs)) = f x + sum_list (map f xs)"
  by (induction xs) auto

lemma sum_list_sort_key:
  fixes f :: "'a \<Rightarrow> nat"
  shows "sum_list (map f (sort_key k xs)) = sum_list (map f xs)"
  by (induction xs) (simp_all add: sum_list_insort_key)

lemma sum_count_unique: "sum_list (map (count_list xs) (unique xs)) = length xs"
proof -
  have "sum_list (map (count_list xs) (unique xs)) = sum (count_list xs) (set (unique xs))"
    by (rule sum_list_distinct_conv_sum_set) (rule distinct_unique)
  also have "\<dots> = length xs"
    by (simp add: set_unique sum_count_set)
  finally show ?thesis .
qed

lemma value_counts_unfold:
  "value_counts col =
     sort_key (\<lambda>(l, n). - int n)
       (map (\<lambda>l. (l, count_list (dropna col) l)) (unique (dropna col)))"
  by (simp add: value_counts_def Let_def)

lemma value_counts_sum:
  "sum_list (map snd (value_counts col)) = length (filter (\<lambda>v. v \<noteq> None) col)"
proof -
  have "sum_list (map snd (value_counts col))
          = sum_list (map (count_list (dropna col)) (unique (dropna col)))"
    by (simp add: value_counts_unfold sum_list_sort_key comp_def)
  then show ?thesis
    by (simp add: sum_count_unique length_dropna)
qed

lemma set_value_counts:
  "set (value_counts col) =
     {(l, n). Some l \<in> set col \<and> n = length (filter (\<lambda>v. v = Some l) col)}"
  by (auto simp: value_counts_unfold set_unique set_dropna count_list_dropna)

lemma distinct_value_counts: "distinct (map fst (value_counts col))"
proof -
  define xs where "xs = map (\<lambda>l. (l, count_list (dropna col) l)) (unique (dropna col))"
  have "map fst xs = unique (dropna col)"
    by (simp add: xs_def comp_def)
  then have "distinct (map fst xs)"
    by (simp add: distinct_unique)
  then have "distinct xs" and "inj_on fst (set xs)"
    by (simp_all add: distinct_map)
  then have "distinct (map fst (sort_key (\<lambda>(l, n). - int n) xs))"
    by (simp add: distinct_map)
  then show ?thesis
    by (simp add: value_counts_unfold xs_def)
qed

lemma filter_column: "length (filter P (column f df)) = length (filter (\<lambda>(i, r). P (f r)) df)"
  by (induction df) (auto simp: column_def)

lemma set_column: "set (column f df) = {f r | i r. (i, r) \<in> set df}"
  by (force simp: column_def)

lemma value_counts_column_entry:
  assumes "(l, n) \<in> set (value_counts (column f df))"
  shows "n = length (filter (\<lambda>(i, r). f r = Some l) df) \<and> 0 < n"
proof -
  from assms have n: "n = length (filter (\<lambda>v. v = Some l) (column f df))"
    and l: "Some l \<in> set (column f df)"
    by (simp_all add: set_value_counts)
  from l obtain i r where "(i, r) \<in> set df" "f r = Some l"
    by (auto simp: set_column)
  then have "filter (\<lambda>(i, r). f r = Some l) df \<noteq> []"
    by (auto simp: filter_empty_conv)
  with n show ?thesis
    by (simp add: filter_column)
qed

lemma charts_page_header: "charts (page_header :: 'f event list) = []"
  by (simp add: charts_def page_header_def)

lemma charts_append: "charts (xs @ ys) = charts xs @ charts ys"
  by (simp add: charts_def)

lemma charts_aggregates:
  "charts (aggregates df) =
     [BarChart (category_counts df), PlotlyChart (category_counts df), BarChart (state_counts df)]"
  by (simp add: charts_def aggregates_def)

lemma sidebar_empty:
  assumes "category_options df = []"
  shows "sidebar w df =
    ([SidebarHeader ''Filter Options'', Warning ''No categories found in the data.''], Stopped)"
  using assms by (simp add: sidebar_def)

lemma sidebar_selection:
  assumes "category_options df \<noteq> []"
    and "c = selectbox w ''Select Category'' (category_options df)"
    and "s = selectbox w ''Select State'' (state_options (filter_category df c))"
    and "ci = selectbox w ''Select City'' (city_options (filter_state (filter_category df c) s))"
    and "n = int (length (filtered_df df c s ci))"
  shows "sidebar w df =
    (case slider w ''Number of rows to display'' 1 n (min 10 n) of
       Inl e \<Rightarrow>
         ([SidebarHeader ''Filter Options'',
           Selectbox ''Select Category'' (category_options df),
           Selectbox ''Select State'' (state_options (filter_category df c)),
           Selectbox ''Select City'' (city_options (filter_state (filter_category df c) s))],
          Raised e)
     | Inr row_count \<Rightarrow>
         ([SidebarHeader ''Filter Options'',
           Selectbox ''Select Category'' (category_options df),
           Selectbox ''Select State'' (state_options (filter_category df c)),
           Selectbox ''Select City'' (city_options (filter_state (filter_category df c) s)),
           Slider ''Number of rows to display'' 1 n (min 10 n)]
            @ render df (filtered_df df c s ci) row_count,
          Completed))"
  using assms by (simp add: sidebar_def Let_def filtered_df_def split: sum.splits)

lemma sidebar_Completed_charts:
  assumes "sidebar w df = (evs, Completed)"
  shows "charts evs = charts (aggregates df)"
proof (cases "category_options df = []")
  case True
  with assms show ?thesis by (simp add: sidebar_empty)
next
  case False
  define c where "c = selectbox w ''Select Category'' (category_options df)"
  define s where "s = selectbox w ''Select State'' (state_options (filter_category df c))"
  define ci where
    "ci = selectbox w ''Select City'' (city_options (filter_state (filter_category df c) s))"
  define n where "n = int (length (filtered_df df c s ci))"
  note sb = sidebar_selection [OF False c_def s_def ci_def n_def]
  show ?thesis
  proof (cases "slider w ''Number of rows to display'' 1 n (min 10 n)")
    case (Inl e)
    with assms sb show ?thesis by simp
  next
    case (Inr row_count)
    with assms sb have "evs = [SidebarHeader ''Filter Options'',
           Selectbox ''Select Category'' (category_options df),
           Selectbox ''Select State'' (state_options (filter_category df c)),
           Selectbox ''Select City'' (city_options (filter_state (filter_category df c) s)),
           Slider ''Number of rows to display'' 1 n (min 10 n)]
            @ render df (filtered_df df c s ci) row_count"
      by simp
    then show ?thesis
      by (simp add: charts_def render_def map_view_def)
  qed
qed

lemma script_fetched:
  assumes "get_connection w = Inr conn" and "read_sql w = Inr rows"
  shows "script w =
    (page_header @ fst (sidebar w (sanitize (parse_float w) (List.enumerate 0 rows))),
     snd (sidebar w (sanitize (parse_float w) (List.enumerate 0 rows))))"
  using assms by (simp add: script_def Let_def split_beta)

lemma script_Completed_fetched:
  assumes "script w = (evs, Completed)"
  shows "\<exists>conn rows. get_connection w = Inr conn \<and> read_sql w = Inr rows"
  using assms by (auto simp: script_def split: sum.splits)

section \<open>The claims\<close>

subsection \<open>Cleaning\<close>

text \<open>
  Claim C2. For every data frame, cleaning keeps exactly the rows whose latitude and
  longitude both coerce to a number, in their original order and under their original
  index labels. A surviving row differs from the row it comes from only in the two
  coordinate columns, which hold the coerced numbers; no surviving row has a missing
  coordinate. Text that does not parse makes the row disappear: \<open>sanitize\<close> has no
  error result.
\<close>

theorem sanitize_drops_missing_keeps_order:
  "sanitize parse df =
     coerce_coords parse
       (filter (\<lambda>(i, r). \<not> isna (to_numeric parse (LATITUDE r))
                        \<and> \<not> isna (to_numeric parse (LONGITUDE r))) df)
   \<and> (\<forall>(i, r') \<in> set (sanitize parse df).
         (\<exists>x y. LATITUDE r' = Num x \<and> LONGITUDE r' = Num y)
         \<and> (\<exists>r. (i, r) \<in> set df
                \<and> r' = r\<lparr>LATITUDE := to_numeric parse (LATITUDE r),
                          LONGITUDE := to_numeric parse (LONGITUDE r)\<rparr>))
   \<and> subseq (map fst (sanitize parse df)) (map fst df)"
proof (intro conjI)
  show "\<forall>(i, r') \<in> set (sanitize parse df).
         (\<exists>x y. LATITUDE r' = Num x \<and> LONGITUDE r' = Num y)
         \<and> (\<exists>r. (i, r) \<in> set df
                \<and> r' = r\<lparr>LATITUDE := to_numeric parse (LATITUDE r),
                          LONGITUDE := to_numeric parse (LONGITUDE r)\<rparr>)"
    using sanitize_numbers [of _ _ parse df] sanitize_origin [of _ _ parse df]
    by (fastforce simp: coerce_row_def)
qed (rule sanitize_eq, rule sanitize_index_subseq)

theorem sanitize_drops_missing_keeps_order_witness:
  "sanitize sample_parse sample_raw = [(0, poi1), (2, poi3), (3, poi4)]
   \<and> (\<exists>x y. LATITUDE poi3 = Num x \<and> LONGITUDE poi3 = Num y)
   \<and> subseq [0, 2, 3] (map fst sample_raw)"
proof -
  have s: "sanitize sample_parse sample_raw = [(0, poi1), (2, poi3), (3, poi4)]"
    by code_simp
  have m: "(2, poi3) \<in> set (sanitize sample_parse sample_raw)"
    by (simp add: s)
  from sanitize_drops_missing_keeps_order [of sample_parse sample_raw] m
  have "\<exists>x y. LATITUDE poi3 = Num x \<and> LONGITUDE poi3 = Num y"
    by fast
  moreover from sanitize_drops_missing_keeps_order [of sample_parse sample_raw]
  have "subseq (map fst (sanitize sample_parse sample_raw)) (map fst sample_raw)"
    by blast
  ultimately show ?thesis
    by (simp add: s)
qed

subsection \<open>Filters and option lists\<close>

text \<open>
  Claim C10. For every data frame and every selection, the filtered frame is the
  original frame with some rows left out: it is a subsequence of the original (same
  rows, same relative order), every row of it is a row of the original, no row occurs
  in it more often than in the original, and it consists of exactly the rows that match
  the category and, unless the sentinel \<open>All\<close> is selected, the state and the city.
\<close>

theorem filtered_df_subsequence:
  "subseq (filtered_df df c s ci) df
   \<and> set (filtered_df df c s ci) \<subseteq> set df
   \<and> (\<forall>x. count_list (filtered_df df c s ci) x \<le> count_list df x)
   \<and> filtered_df df c s ci =
       filter (\<lambda>(i, r). CATEGORY_MAIN r = Some c
                      \<and> (s \<noteq> ''All'' \<longrightarrow> STATE r = Some s)
                      \<and> (ci \<noteq> ''All'' \<longrightarrow> CITY r = Some ci)) df"
proof -
  let ?P = "\<lambda>(i, r). CATEGORY_MAIN r = Some c
                      \<and> (s \<noteq> ''All'' \<longrightarrow> STATE r = Some s)
                      \<and> (ci \<noteq> ''All'' \<longrightarrow> CITY r = Some ci)"
  have eq: "filtered_df df c s ci = filter ?P df"
    by (rule filtered_df_eq)
  have "subseq (filter ?P df) df" and "set (filter ?P df) \<subseteq> set df"
    by simp_all
  moreover have "\<forall>x. count_list (filter ?P df) x \<le> count_list df x"
    by (simp add: count_list_filter_le)
  ultimately show ?thesis
    unfolding eq by simp
qed

theorem filtered_df_subsequence_witness:
  "filtered_df sample_raw ''A'' ''CA'' ''All'' = [(1, poi2)]
   \<and> subseq [(1, poi2)] sample_raw
   \<and> (1, poi2) \<in> set sample_raw"
proof -
  have f: "filtered_df sample_raw ''A'' ''CA'' ''All'' = [(1, poi2)]"
    by code_simp
  from filtered_df_subsequence [of sample_raw "''A''" "''CA''" "''All''"]
  have "subseq (filtered_df sample_raw ''A'' ''CA'' ''All'') sample_raw"
    and "set (filtered_df sample_raw ''A'' ''CA'' ''All'') \<subseteq> set sample_raw"
    by simp_all
  then show ?thesis
    by (simp add: f)
qed

text \<open>
  Claim C7. Filtering is idempotent: applying a selection to the frame that the same
  selection produced returns that frame unchanged.
\<close>

theorem filtered_df_idempotent:
  "filtered_df (filtered_df df c s ci) c s ci = filtered_df df c s ci"
  unfolding filtered_df_eq by (auto intro!: filter_cong)

theorem filtered_df_idempotent_witness:
  "filtered_df (filtered_df sample_raw ''A'' ''CA'' ''Fresno'') ''A'' ''CA'' ''Fresno''
     = [(1, poi2)]"
proof -
  have "filtered_df sample_raw ''A'' ''CA'' ''Fresno'' = [(1, poi2)]"
    by code_simp
  with filtered_df_idempotent [of sample_raw "''A''" "''CA''" "''Fresno''"]
  show ?thesis by simp
qed

text \<open>
  Claim C1. The state option list computed for a category is the sentinel \<open>All\<close>
  followed by state labels, and every one of these labels is the state of some row of
  the data frame whose category is the selected one: no label from outside that subset
  is offered. Likewise the city option list is \<open>All\<close> followed by city labels, each the
  city of some row that matches the selected category and, when a state other than
  \<open>All\<close> is selected, that state.
\<close>

theorem options_from_filtered_subset:
  "hd (state_options (filter_category df c)) = ''All''
   \<and> (\<forall>x \<in> set (tl (state_options (filter_category df c))).
         \<exists>(i, r) \<in> set df. CATEGORY_MAIN r = Some c \<and> STATE r = Some x)
   \<and> hd (city_options (filter_state (filter_category df c) s)) = ''All''
   \<and> (\<forall>x \<in> set (tl (city_options (filter_state (filter_category df c) s))).
         \<exists>(i, r) \<in> set df. CATEGORY_MAIN r = Some c
             \<and> (s \<noteq> ''All'' \<longrightarrow> STATE r = Some s) \<and> CITY r = Some x)"
proof (intro conjI)
  show "\<forall>x \<in> set (tl (state_options (filter_category df c))).
         \<exists>(i, r) \<in> set df. CATEGORY_MAIN r = Some c \<and> STATE r = Some x"
    unfolding state_options_def list.sel set_options_column
    by (auto simp: filter_category_def)
  show "\<forall>x \<in> set (tl (city_options (filter_state (filter_category df c) s))).
         \<exists>(i, r) \<in> set df. CATEGORY_MAIN r = Some c
             \<and> (s \<noteq> ''All'' \<longrightarrow> STATE r = Some s) \<and> CITY r = Some x"
    unfolding city_options_def list.sel set_options_column
    by (auto simp: filter_category_def filter_state_def)
qed (simp_all add: state_options_def city_options_def)

theorem options_from_filtered_subset_witness:
  "tl (state_options (filter_category sample_raw ''A'')) = [''CA'', ''TX'']
   \<and> tl (city_options (filter_state (filter_category sample_raw ''A'') ''CA'')) = [''Fresno'']
   \<and> (\<exists>i r. (i, r) \<in> set sample_raw \<and> CATEGORY_MAIN r = Some ''A'' \<and> STATE r = Some ''CA''
          \<and> CITY r = Some ''Fresno'')"
proof -
  have st: "tl (state_options (filter_category sample_raw ''A'')) = [''CA'', ''TX'']"
    by code_simp
  have ci: "tl (city_options (filter_state (filter_category sample_raw ''A'') ''CA''))
              = [''Fresno'']"
    by code_simp
  have "''Fresno'' \<in> set (tl (city_options (filter_state (filter_category sample_raw ''A'') ''CA'')))"
    by (simp add: ci)
  with options_from_filtered_subset [of sample_raw "''A''" "''CA''"]
  have "\<exists>(i, r) \<in> set sample_raw. CATEGORY_MAIN r = Some ''A''
          \<and> (''CA'' \<noteq> ''All'' \<longrightarrow> STATE r = Some ''CA'') \<and> CITY r = Some ''Fresno''"
    by blast
  then have "\<exists>i r. (i, r) \<in> set sample_raw \<and> CATEGORY_MAIN r = Some ''A''
          \<and> STATE r = Some ''CA'' \<and> CITY r = Some ''Fresno''"
    by auto
  with st ci show ?thesis by simp
qed

text \<open>
  Claim C9. When the category is one of the category options, the state is one of the
  state options derived for that category (the sentinel \<open>All\<close> or a listed state), and
  the city is one of the city options derived for that category and state, the filtered
  frame is not empty. So the map is drawn and not replaced by the warning, and the
  slider's bounds are in order: its minimum 1 is at most its initial value
  \<open>min 10 n\<close>, which is at most its maximum \<open>n\<close>, the number of filtered rows.
\<close>

theorem selection_from_options_nonempty:
  assumes "c \<in> set (category_options df)"
    and "s \<in> set (state_options (filter_category df c))"
    and "ci \<in> set (city_options (filter_state (filter_category df c) s))"
  shows "filtered_df df c s ci \<noteq> []
    \<and> map_view (filtered_df df c s ci) = PydeckChart (filtered_df df c s ci)
    \<and> 1 \<le> min 10 (int (length (filtered_df df c s ci)))
    \<and> min 10 (int (length (filtered_df df c s ci))) \<le> int (length (filtered_df df c s ci))"
proof -
  from assms(1) have 1: "filter_category df c \<noteq> []"
    unfolding category_options_def set_options_column
    by (auto simp: filter_category_def filter_empty_conv)
  from assms(2) 1 have 2: "filter_state (filter_category df c) s \<noteq> []"
    unfolding state_options_def set_simps set_options_column
    by (auto simp: filter_state_def filter_empty_conv)
  from assms(3) 2 have "filter_city (filter_state (filter_category df c) s) ci \<noteq> []"
    unfolding city_options_def set_simps set_options_column
    by (auto simp: filter_city_def filter_empty_conv)
  then have ne: "filtered_df df c s ci \<noteq> []"
    by (simp add: filtered_df_def)
  then have "1 \<le> int (length (filtered_df df c s ci))"
    by (cases "filtered_df df c s ci") simp_all
  with ne show ?thesis
    by (simp add: map_view_def)
qed

theorem selection_from_options_nonempty_witness:
  "''A'' \<in> set (category_options sample_df)
   \<and> ''TX'' \<in> set (state_options (filter_category sample_df ''A''))
   \<and> ''All'' \<in> set (city_options (filter_state (filter_category sample_df ''A'') ''TX''))
   \<and> filtered_df sample_df ''A'' ''TX'' ''All'' \<noteq> []
   \<and> map_view (filtered_df sample_df ''A'' ''TX'' ''All'')
       = PydeckChart (filtered_df sample_df ''A'' ''TX'' ''All'')"
proof -
  have h1: "''A'' \<in> set (category_options sample_df)"
    by code_simp
  have h2: "''TX'' \<in> set (state_options (filter_category sample_df ''A''))"
    by code_simp
  have h3: "''All'' \<in> set (city_options (filter_state (filter_category sample_df ''A'') ''TX''))"
    by code_simp
  from selection_from_options_nonempty [OF h1 h2 h3] h1 h2 h3
  show ?thesis by simp
qed

subsection \<open>Aggregates\<close>

text \<open>
  Claim C5. For every data frame, the counts of the category aggregate add up to the
  number of rows whose category is not missing. Every label of the aggregate is the
  category of at least one row and carries exactly the number of rows with that
  category, and no label occurs twice; so a row without a category is counted under
  no label at all. The counts of the state aggregate add up in the same way to the
  number of rows whose state is not missing.
\<close>

theorem value_counts_total:
  "sum_list (map snd (category_counts df))
     = length (filter (\<lambda>(i, r). CATEGORY_MAIN r \<noteq> None) df)
   \<and> (\<forall>(l, n) \<in> set (category_counts df).
         n = length (filter (\<lambda>(i, r). CATEGORY_MAIN r = Some l) df) \<and> 0 < n)
   \<and> distinct (map fst (category_counts df))
   \<and> sum_list (map snd (state_counts df))
       = length (filter (\<lambda>(i, r). STATE r \<noteq> None) df)"
  using value_counts_column_entry [of _ _ CATEGORY_MAIN df]
  by (auto simp: category_counts_def state_counts_def value_counts_sum filter_column
      distinct_value_counts)

theorem value_counts_total_witness:
  "category_counts sample_df = [(''A'', 1), (''B'', 1)]
   \<and> length sample_df = 3
   \<and> length (filter (\<lambda>(i, r). CATEGORY_MAIN r \<noteq> None) sample_df) = 2
   \<and> length (filter (\<lambda>(i, r). CATEGORY_MAIN r = Some ''B'') sample_df) = 1"
proof -
  have cc: "category_counts sample_df = [(''A'', 1), (''B'', 1)]"
    by code_simp
  have "(''B'', 1) \<in> set (category_counts sample_df)"
    by (simp add: cc)
  with value_counts_total [of sample_df]
  have "(1::nat) = length (filter (\<lambda>(i, r). CATEGORY_MAIN r = Some ''B'') sample_df)"
    by fast
  moreover from value_counts_total [of sample_df]
  have "length (filter (\<lambda>(i, r). CATEGORY_MAIN r \<noteq> None) sample_df) = 2"
    by (simp add: cc)
  moreover have "length sample_df = 3"
    by (simp add: sample_df_def)
  ultimately show ?thesis
    by (simp add: cc)
qed

text \<open>
  Two runs that read the same rows and parse numbers alike, and that both reach the
  end, show the same three charts whatever the select boxes and the slider return in
  either run: the category counts twice and the state counts, each computed over the
  whole cleaned frame.
\<close>

lemma completed_runs_same_charts:
  assumes "read_sql w1 = Inr rows" and "read_sql w2 = Inr rows"
    and "parse_float w1 = parse_float w2"
    and "script w1 = (evs1, Completed)" and "script w2 = (evs2, Completed)"
    and "df = sanitize (parse_float w1) (List.enumerate 0 rows)"
  shows "charts evs1 = charts evs2 \<and>
    charts evs1 =
      [BarChart (category_counts df), PlotlyChart (category_counts df), BarChart (state_counts df)]"
proof -
  have *: "charts evs = charts (aggregates df)"
    if "script w = (evs, Completed)" "read_sql w = Inr rows" "parse_float w = parse_float w1"
    for w :: "'a world" and evs
  proof -
    from that(1) obtain conn where "get_connection w = Inr conn"
      using script_Completed_fetched by blast
    with that have evs: "evs = page_header @ fst (sidebar w df)"
      and out: "snd (sidebar w df) = Completed"
      by (simp_all add: script_fetched assms(6))
    from out have "sidebar w df = (fst (sidebar w df), Completed)"
      by (simp add: prod_eq_iff)
    then have "charts (fst (sidebar w df)) = charts (aggregates df)"
      by (rule sidebar_Completed_charts)
    with evs show ?thesis
      by (simp add: charts_append charts_page_header)
  qed
  from * [OF assms(4) assms(1)] * [OF assms(5) assms(2)] assms(3)
  show ?thesis by (simp add: charts_aggregates)
qed

text \<open>
  Claim C6. The charts are computed from the whole cleaned frame and are meant to be
  the same for every selection. The script calls the slider at line 61, before the
  charts, with minimum 1 and maximum the number of filtered rows. For a selection that
  matches exactly one row the two bounds are equal; where the slider rejects equal
  bounds the run ends there and shows no chart, while a run over the same rows with a
  selection that matches two rows shows all three.
\<close>

theorem single_row_selection_loses_aggregates:
  "read_sql one_row_world = read_sql two_row_world
   \<and> category_options (sanitize sample_parse (List.enumerate 0 chart_rows)) = [''A'', ''B'']
   \<and> snd (script two_row_world) = Completed
   \<and> charts (fst (script two_row_world)) =
       [BarChart [(''A'', 2), (''B'', 1)], PlotlyChart [(''A'', 2), (''B'', 1)],
        BarChart [(''TX'', 2)]]
   \<and> script one_row_world =
       (page_header @
        [SidebarHeader ''Filter Options'',
         Selectbox ''Select Category'' [''A'', ''B''],
         Selectbox ''Select State'' [''All''],
         Selectbox ''Select City'' [''All'']],
        Raised (Exn ''StreamlitAPIException''))
   \<and> filtered_df (sanitize sample_parse (List.enumerate 0 chart_rows)) ''B'' ''All'' ''All''
       = [(2, poi3)]
   \<and> charts (fst (script one_row_world)) = []"
  by code_simp

subsection \<open>How a run ends\<close>

text \<open>
  Claim C8. When the data is fetched and no row of the cleaned frame has a category
  (in particular when the table is empty), the run shows the page header, the sidebar
  header and the warning that no categories were found, and halts there: no select
  box, slider, map, table or chart is shown.
\<close>

theorem empty_category_options_halt:
  assumes "get_connection w = Inr conn" and "read_sql w = Inr rows"
    and "\<forall>(i, r) \<in> set (sanitize (parse_float w) (List.enumerate 0 rows)).
           CATEGORY_MAIN r = None"
  shows "category_options (sanitize (parse_float w) (List.enumerate 0 rows)) = []
    \<and> script w =
        (page_header
           @ [SidebarHeader ''Filter Options'', Warning ''No categories found in the data.''],
         Stopped)"
proof -
  from assms(3)
  have "set (category_options (sanitize (parse_float w) (List.enumerate 0 rows))) = {}"
    unfolding category_options_def set_options_column by auto
  then have "category_options (sanitize (parse_float w) (List.enumerate 0 rows)) = []"
    by simp
  then show ?thesis
    by (simp add: script_fetched [OF assms(1,2)] sidebar_empty)
qed

theorem empty_category_options_halt_witness:
  "script empty_table_world =
     (page_header
        @ [SidebarHeader ''Filter Options'', Warning ''No categories found in the data.''],
      Stopped)
   \<and> sanitize (parse_float uncategorised_world) (List.enumerate 0 [poi4, poi4])
       = [(0, poi4), (1, poi4)]
   \<and> CATEGORY_MAIN poi4 = None
   \<and> script uncategorised_world =
       (page_header
          @ [SidebarHeader ''Filter Options'', Warning ''No categories found in the data.''],
        Stopped)"
proof -
  have c1: "get_connection empty_table_world = Inr ()"
    and r1: "read_sql empty_table_world = Inr []"
    and c2: "get_connection uncategorised_world = Inr ()"
    and r2: "read_sql uncategorised_world = Inr [poi4, poi4]"
    by (simp_all add: empty_table_world_def uncategorised_world_def sample_world_def)
  have e1: "\<forall>(i, r) \<in> set (sanitize (parse_float empty_table_world) (List.enumerate 0 [])).
              CATEGORY_MAIN r = None"
    by (simp add: sanitize_def dropna_coords_def coerce_coords_def)
  have s2: "sanitize (parse_float uncategorised_world) (List.enumerate 0 [poi4, poi4])
              = [(0, poi4), (1, poi4)]"
    by code_simp
  have n: "CATEGORY_MAIN poi4 = None"
    by (simp add: poi4_def)
  have e2: "\<forall>(i, r) \<in> set (sanitize (parse_float uncategorised_world)
                               (List.enumerate 0 [poi4, poi4])).
              CATEGORY_MAIN r = None"
    unfolding s2 by (simp add: n)
  from empty_category_options_halt [OF c1 r1 e1] empty_category_options_halt [OF c2 r2 e2] s2 n
  show ?thesis by simp
qed

text \<open>
  Claim C4, as the code has it. A failure to establish the connection is caught: the
  run shows the page header and the error message and halts, and nothing that needs
  data is shown. A failure of the query is not caught by the script: the exception
  leaves the run after the page header, no error message of the script is shown, and
  nothing that needs data is shown either.
\<close>

theorem connection_failure_handled:
  "(get_connection w = Inl e \<longrightarrow>
      script w =
        (page_header
           @ [Error ''Failed to connect to Snowflake. Please check your credentials.''],
         Stopped))
   \<and> (get_connection w = Inr conn \<longrightarrow> read_sql w = Inl e \<longrightarrow>
        script w = (page_header, Raised e))"
  by (simp add: script_def)

theorem connection_failure_handled_witness:
  "script connect_fail_world =
     (page_header
        @ [Error ''Failed to connect to Snowflake. Please check your credentials.''],
      Stopped)"
proof -
  have "get_connection connect_fail_world = Inl (Exn ''DatabaseError'')"
    by (simp add: connect_fail_world_def)
  with connection_failure_handled [of connect_fail_world "Exn ''DatabaseError''"]
  show ?thesis by simp
qed

text \<open>
  Claim C4 as first stated, that a failure of the query is caught and reported by an
  error message, fails: with a working connection and a failing query the run ends in
  the uncaught exception, having shown the page header and no error message.
\<close>

theorem query_failure_not_caught:
  "script query_fail_world = (page_header, Raised (Exn ''ProgrammingError''))
   \<and> Error ''Failed to connect to Snowflake. Please check your credentials.''
       \<notin> set (fst (script query_fail_world))"
  by code_simp

end
